theory Spec2Isabelle
  imports Complex_Main
begin

section \<open>Numbers and exceptions\<close>

text \<open>
  A JavaScript number is modelled as a real, or one of the three special values the
  code can reach: \<open>minError\<close> starts at \<open>Infinity\<close>, and \<open>Math.log\<close> of a quotient
  of infinities is \<open>NaN\<close>. The arithmetic of doubles is taken as exact; the rounding
  to 32-bit floats of what a tensor stores is modelled (\<open>fround\<close>, \<open>f32\<close> below). A
  zero denominator stands for \<open>+0\<close>.
\<close>

datatype jsnum = Num real | PosInf | NegInf | NaN

text \<open>
  The two exceptions \<open>fit\<close> can stop on: the \<open>TypeError\<close> of \<open>Array.prototype.reduce\<close>
  on an empty array without an initial value, and the error the tensor library raises
  on a value it cannot turn into a tensor or on a slice outside the tensor.
\<close>

datatype error = TypeError | TfError

text \<open>\<open>c - x\<close>, \<open>x + c\<close>, \<open>x / y\<close>, \<open>Math.log x\<close> and \<open>c * x\<close> (for \<open>c > 0\<close>).\<close>

fun js_rsub :: "real \<Rightarrow> jsnum \<Rightarrow> jsnum" where
  "js_rsub c (Num x) = Num (c - x)"
| "js_rsub c PosInf = NegInf"
| "js_rsub c NegInf = PosInf"
| "js_rsub c NaN = NaN"

fun js_add :: "jsnum \<Rightarrow> real \<Rightarrow> jsnum" where
  "js_add (Num x) c = Num (x + c)"
| "js_add PosInf c = PosInf"
| "js_add NegInf c = NegInf"
| "js_add NaN c = NaN"

fun js_div :: "jsnum \<Rightarrow> jsnum \<Rightarrow> jsnum" where
  "js_div (Num a) (Num b) =
     (if b \<noteq> 0 then Num (a / b)
      else if 0 < a then PosInf else if a < 0 then NegInf else NaN)"
| "js_div (Num a) PosInf = Num 0"
| "js_div (Num a) NegInf = Num 0"
| "js_div PosInf (Num b) = (if 0 \<le> b then PosInf else NegInf)"
| "js_div NegInf (Num b) = (if 0 \<le> b then NegInf else PosInf)"
| "js_div _ _ = NaN"

fun js_log :: "jsnum \<Rightarrow> jsnum" where
  "js_log (Num x) = (if 0 < x then Num (ln x) else if x = 0 then NegInf else NaN)"
| "js_log PosInf = PosInf"
| "js_log NegInf = NaN"
| "js_log NaN = NaN"

fun js_scale :: "real \<Rightarrow> jsnum \<Rightarrow> jsnum" where
  "js_scale c (Num x) = Num (c * x)"
| "js_scale c v = v"

text \<open>\<open>e < m\<close> for a finite \<open>e\<close>.\<close>

fun js_less :: "real \<Rightarrow> jsnum \<Rightarrow> bool" where
  "js_less e (Num m) = (e < m)"
| "js_less e PosInf = True"
| "js_less e NegInf = False"
| "js_less e NaN = False"

text \<open>
  What a \<open>Float32Array\<close> holds for a finite number \<open>x\<close>: the nearest number with 24
  significant bits, ties to the even one. With \<open>e\<close> the binary exponent of \<open>x\<close>, not
  below \<open>-126\<close> (the subnormal numbers), these are the multiples of \<open>2^(e - 23)\<close>;
  a result of magnitude \<open>2^128\<close> is out of range and stored as an infinity.
\<close>

definition rne :: "real \<Rightarrow> int" where
  "rne x = (let f = \<lfloor>x\<rfloor>; d = x - of_int f
            in if d < 1 / 2 then f else if 1 / 2 < d then f + 1
               else if even f then f else f + 1)"

definition fround :: "real \<Rightarrow> real" where
  "fround x =
     (if x = 0 then 0
      else let e = max \<lfloor>log 2 \<bar>x\<bar>\<rfloor> (- 126); u = 2 powi (e - 23)
           in of_int (rne (x / u)) * u)"

definition f32 :: "real \<Rightarrow> jsnum" where
  "f32 x = (let r = fround x
            in if 2 ^ 128 \<le> r then PosInf else if r \<le> - (2 ^ 128) then NegInf else Num r)"

section \<open>The classifier's data\<close>

text \<open>
  \<open>class DecisionStump\<close>: \<open>polarity = 1\<close>, the other three fields \<open>null\<close> until the
  search of a round assigns them.
\<close>

record DecisionStump =
  polarity :: int
  featureIndex :: "nat option"
  threshold :: "jsnum option"
  alpha :: "jsnum option"

definition new_DecisionStump :: DecisionStump where
  "new_DecisionStump =
     \<lparr>polarity = 1, featureIndex = None, threshold = None, alpha = None\<rparr>"

text \<open>\<open>class AdaboostClassifier\<close>: the round count \<open>nCls\<close> and the members \<open>cls\<close>.\<close>

record AdaboostClassifier =
  nCls :: nat
  cls :: "DecisionStump list"

definition new_AdaboostClassifier :: "nat \<Rightarrow> AdaboostClassifier" where
  "new_AdaboostClassifier n_cls = \<lparr>nCls = n_cls, cls = []\<rparr>"

section \<open>The library calls of \<open>fit\<close>\<close>

text \<open>
  \<open>tf.tensor2d(X)\<close>: a rank-2 tensor, its shape and its values, stored as 32-bit
  floats in row-major order. The library refuses a value without rows and rows of
  different lengths.
\<close>

record tensor2 =
  t_shape :: "nat \<times> nat"
  t_data :: "jsnum list"

definition tensor2d :: "real list list \<Rightarrow> error + tensor2" where
  "tensor2d X =
     (if X = [] then Inl TfError
      else if list_all (\<lambda>r. length r = length (hd X)) X
      then Inr \<lparr>t_shape = (length X, length (hd X)), t_data = map f32 (concat X)\<rparr>
      else Inl TfError)"

text \<open>
  \<open>tensorX.slice([0], [j]).expandDims(1).dataSync()\<close>. On a rank-2 tensor the begin
  \<open>[0]\<close> is completed to \<open>[0, 0]\<close> and the size \<open>[j]\<close> to \<open>[j, -1]\<close>, where \<open>-1\<close> is
  the rest of the axis: the slice is the first \<open>j\<close> rows, whole, and the library
  refuses \<open>j\<close> beyond the number of rows. \<open>expandDims\<close> changes the shape only.
\<close>

definition slice_data :: "tensor2 \<Rightarrow> nat \<Rightarrow> error + jsnum list" where
  "slice_data t j =
     (if j \<le> fst (t_shape t) then Inr (take (j * snd (t_shape t)) (t_data t))
      else Inl TfError)"

text \<open>
  Modelled from the spec: the helpers \<open>inferShape\<close> and \<open>reshape\<close> of \<open>src/lib/ops\<close> are
  not among the sources. The spec's data model has \<open>X\<close> as \<open>n\<close> samples of \<open>m\<close>
  features each, so the shape of \<open>X\<close> is \<open>(n, m)\<close>; \<open>reshape\<close> is only applied to a
  flat array and the one-dimensional shape of its own length, which leaves the array
  as it is, one prediction per sample.
\<close>

definition inferShape :: "real list list \<Rightarrow> nat \<times> nat" where
  "inferShape X = (length X, length (hd X))"

definition reshape :: "real list \<Rightarrow> nat list \<Rightarrow> real list" where
  "reshape array sizes = array"

text \<open>lodash's \<open>uniq\<close>: the distinct values, each at its first occurrence.\<close>

fun baseUniq :: "'a list \<Rightarrow> 'a list \<Rightarrow> 'a list" where
  "baseUniq result [] = result"
| "baseUniq result (v # vs) =
     (if v \<in> set result then baseUniq result vs else baseUniq (result @ [v]) vs)"

definition uniq :: "'a list \<Rightarrow> 'a list" where
  "uniq xs = baseUniq [] xs"

text \<open>
  \<open>array[index]\<close> is \<open>undefined\<close> beyond the array; \<open>!==\<close> compares two such reads.
\<close>

definition js_nth :: "'a list \<Rightarrow> nat \<Rightarrow> 'a option" where
  "js_nth xs i = (if i < length xs then Some (xs ! i) else None)"

text \<open>\<open>xs.reduce((total, x) => total + x)\<close>, which throws on an empty array.\<close>

definition reduce_sum :: "real list \<Rightarrow> error + real" where
  "reduce_sum xs = (case xs of [] \<Rightarrow> Inl TypeError | x # rest \<Rightarrow> Inr (foldl (+) x rest))"

section \<open>\<open>fit\<close>\<close>

text \<open>
  The prediction of the innermost loop: an array of ones of the shape of \<open>y\<close>, each
  entry \<open>x\<close> replaced by \<open>-1\<close> when \<open>x < t\<close>, for the threshold \<open>t\<close>.
\<close>

definition prediction_of :: "nat \<Rightarrow> jsnum \<Rightarrow> real list" where
  "prediction_of ny t =
     reshape (map (\<lambda>x. if js_less x t then - 1 else x) (replicate ny 1)) [ny]"

text \<open>\<open>w.filter((_, index) => y[index] !== prediction[index])\<close>.\<close>

definition misclassified :: "real list \<Rightarrow> real list \<Rightarrow> real list \<Rightarrow> real list" where
  "misclassified w y prediction =
     map (\<lambda>index. w ! index)
       (filter (\<lambda>index. js_nth y index \<noteq> js_nth prediction index) [0..<length w])"

text \<open>
  The body of the loop over \<open>k\<close>, on the search state \<open>(clf, minError)\<close> of round \<open>i\<close>,
  for the threshold \<open>t = uniqueValues[k]\<close>.
\<close>

definition try_threshold ::
  "real list \<Rightarrow> real list \<Rightarrow> nat \<Rightarrow> DecisionStump \<times> jsnum \<Rightarrow> jsnum
     \<Rightarrow> error + DecisionStump \<times> jsnum" where
  "try_threshold w y i s t =
     (let prediction = prediction_of (length y) t in
      case reduce_sum (misclassified w y prediction) of
        Inl e \<Rightarrow> Inl e
      | Inr error \<Rightarrow>
          (let (error', p) = (if error > 0.5 then (1 - error, - 1) else (error, 1)) in
           if js_less error' (snd s)
           then Inr ((fst s)\<lparr>polarity := p, featureIndex := Some i,
                              threshold := Some t\<rparr>, Num error')
           else Inr s))"

fun thresholds_loop ::
  "real list \<Rightarrow> real list \<Rightarrow> nat \<Rightarrow> DecisionStump \<times> jsnum \<Rightarrow> jsnum list
     \<Rightarrow> error + DecisionStump \<times> jsnum" where
  "thresholds_loop w y i s [] = Inr s"
| "thresholds_loop w y i s (t # ts) =
     (case try_threshold w y i s t of
        Inl e \<Rightarrow> Inl e
      | Inr s' \<Rightarrow> thresholds_loop w y i s' ts)"

text \<open>The loop over \<open>j\<close>, given the values of \<open>j\<close> still to run.\<close>

fun features_loop ::
  "tensor2 \<Rightarrow> real list \<Rightarrow> real list \<Rightarrow> nat \<Rightarrow> DecisionStump \<times> jsnum \<Rightarrow> nat list
     \<Rightarrow> error + DecisionStump \<times> jsnum" where
  "features_loop tensorX w y i s [] = Inr s"
| "features_loop tensorX w y i s (j # js) =
     (case slice_data tensorX j of
        Inl e \<Rightarrow> Inl e
      | Inr featureValues \<Rightarrow>
          (case thresholds_loop w y i s (uniq featureValues) of
             Inl e \<Rightarrow> Inl e
           | Inr s' \<Rightarrow> features_loop tensorX w y i s' js))"

text \<open>\<open>0.5 * Math.log((1.0 - minError) / (minError + 1e-10))\<close>.\<close>

definition alpha_of :: "jsnum \<Rightarrow> jsnum" where
  "alpha_of minError =
     js_scale 0.5 (js_log (js_div (js_rsub 1 minError) (js_add minError (1 / 10 ^ 10))))"

text \<open>
  The body of the loop over the rounds: the search, then \<open>alpha\<close>. The round's state
  is the stump \<open>clf\<close> and the weights \<open>w\<close>, which the body only reads; the array
  \<open>predictions\<close> of ones it builds last is not used.
\<close>

definition fit_round ::
  "tensor2 \<Rightarrow> real list \<Rightarrow> nat \<Rightarrow> real list \<Rightarrow> nat \<Rightarrow> error + DecisionStump \<times> real list" where
  "fit_round tensorX y nFeatures w i =
     (case features_loop tensorX w y i (new_DecisionStump, PosInf) [0..<nFeatures] of
        Inl e \<Rightarrow> Inl e
      | Inr (clf, minError) \<Rightarrow> Inr (clf\<lparr>alpha := Some (alpha_of minError)\<rparr>, w))"

fun fit_rounds ::
  "tensor2 \<Rightarrow> real list \<Rightarrow> nat \<Rightarrow> real list \<Rightarrow> nat list \<Rightarrow> error + real list" where
  "fit_rounds tensorX y nFeatures w [] = Inr w"
| "fit_rounds tensorX y nFeatures w (i # is) =
     (case fit_round tensorX y nFeatures w i of
        Inl e \<Rightarrow> Inl e
      | Inr (clf, w') \<Rightarrow> fit_rounds tensorX y nFeatures w' is)"

text \<open>
  The weights \<open>fit\<close> starts from, \<open>Array.from(tf.fill([nSamples], 1 / nSamples).dataSync())\<close>:
  \<open>nSamples\<close> times the 32-bit float nearest to \<open>1 / nSamples\<close> (at most \<open>1\<close>, so
  never out of range).
\<close>

definition initial_weights :: "real list list \<Rightarrow> real list" where
  "initial_weights X = (let (nSamples, nFeatures) = inferShape X
                        in replicate nSamples (fround (1 / real nSamples)))"

text \<open>
  The weights in hand after the rounds \<open>0, ..., r - 1\<close> of \<open>fit\<close> on \<open>X\<close> and \<open>y\<close>, or
  the exception that stopped them.
\<close>

definition weights_after :: "real list list \<Rightarrow> real list \<Rightarrow> nat \<Rightarrow> error + real list" where
  "weights_after X y r =
     (case tensor2d X of
        Inl e \<Rightarrow> Inl e
      | Inr tensorX \<Rightarrow>
          fit_rounds tensorX y (snd (inferShape X)) (initial_weights X) [0..<r])"

text \<open>
  \<open>fit\<close>: how the call ends (normally, or on an exception) and the instance after it.
\<close>

definition fit ::
  "AdaboostClassifier \<Rightarrow> real list list \<Rightarrow> real list \<Rightarrow> (error + unit) \<times> AdaboostClassifier" where
  "fit this X y =
     (case weights_after X y (nCls this) of
        Inl e \<Rightarrow> (Inl e, this)
      | Inr w \<Rightarrow> (Inr (), this))"

text \<open>
  The weight update in the spec's words, for comparison with the weights the code holds
  after a round: \<open>nextWeights[i] = weights[i] * exp(-alpha * y[i] * pred[i])\<close>, then
  renormalised to sum \<open>1\<close>.
\<close>

definition spec_nextWeights :: "real \<Rightarrow> real list \<Rightarrow> real list \<Rightarrow> real list \<Rightarrow> real list" where
  "spec_nextWeights a weights y pred =
     (let u = map (\<lambda>i. weights ! i * exp (- a * (y ! i) * (pred ! i))) [0..<length weights]
      in map (\<lambda>x. x / sum_list u) u)"

section \<open>\<open>predict\<close>, \<open>toJSON\<close>, \<open>fromJSON\<close>\<close>

text \<open>
  \<open>predict\<close> takes a matrix of either dimension and is declared to return one; its
  body is \<open>return undefined\<close>, modelled as \<open>None\<close>.
\<close>

datatype matrix_arg = Matrix1D "real list" | Matrix2D "real list list"

definition predict :: "AdaboostClassifier \<Rightarrow> matrix_arg \<Rightarrow> matrix_arg option" where
  "predict this X = None"

text \<open>
  Modelled from the spec: the type \<open>TypeModelState\<close> of \<open>src/lib/types\<close> is not among
  the sources. The spec's record lists, per member, the feature index, the threshold,
  the polarity and alpha, plus the configured round count.
\<close>

record TypeModelState =
  state_nCls :: nat
  state_cls :: "DecisionStump list"

text \<open>\<open>toJSON\<close> returns \<open>undefined\<close>; the body of \<open>fromJSON\<close> is empty.\<close>

definition toJSON :: "AdaboostClassifier \<Rightarrow> TypeModelState option" where
  "toJSON this = None"

definition fromJSON :: "AdaboostClassifier \<Rightarrow> TypeModelState option \<Rightarrow> AdaboostClassifier" where
  "fromJSON this state = this"

section \<open>\<open>Binarizer\<close>\<close>

text \<open>
  \<open>transform\<close> writes into arrays that its argument and its result may share, so the
  arrays live in a store: an outer array is a list of references to row arrays, a row
  array a list of items, and \<open>next_addr\<close> is the next free address. An item is a
  number or anything else (\<open>X\<close> is \<open>any[]\<close>).
\<close>

datatype jsval = Number real | NotNumber

type_synonym addr = nat

record store =
  arrays :: "addr \<rightharpoonup> addr list"
  row_arrays :: "addr \<rightharpoonup> jsval list"
  next_addr :: addr

text \<open>The two \<open>Error\<close>s of \<open>transform\<close>, by their messages.\<close>

datatype bin_error = XCannotBeNull | NotANumber

record Binarizer =
  threshold_bin :: real
  copy :: bool

text \<open>The elements of an outer array and the items of a row array (none when absent).\<close>

definition elements :: "store \<Rightarrow> addr \<Rightarrow> addr list" where
  "elements h a = (case arrays h a of Some rs \<Rightarrow> rs | None \<Rightarrow> [])"

definition cells :: "store \<Rightarrow> addr \<Rightarrow> jsval list" where
  "cells h r = (case row_arrays h r of Some vs \<Rightarrow> vs | None \<Rightarrow> [])"

text \<open>The matrix read through an outer array.\<close>

definition matrix_at :: "store \<Rightarrow> addr \<Rightarrow> jsval list list" where
  "matrix_at h a = map (cells h) (elements h a)"

text \<open>
  lodash's \<open>clone\<close> is shallow: a new outer array holding the same references.
\<close>

definition clone :: "store \<Rightarrow> addr \<Rightarrow> store \<times> addr" where
  "clone h X =
     (h\<lparr>arrays := (arrays h)(next_addr h \<mapsto> elements h X), next_addr := Suc (next_addr h)\<rparr>,
      next_addr h)"

text \<open>\<open>row[column] = v\<close>, for a column inside the row.\<close>

definition write_cell :: "store \<Rightarrow> addr \<Rightarrow> nat \<Rightarrow> jsval \<Rightarrow> store" where
  "write_cell h r column v =
     h\<lparr>row_arrays := (row_arrays h)(r \<mapsto> (cells h r)[column := v])\<rparr>"

text \<open>\<open>item <= this.threshold ? 0 : 1\<close>.\<close>

definition binarize :: "real \<Rightarrow> real \<Rightarrow> jsval" where
  "binarize t item = Number (if item \<le> t then 0 else 1)"

text \<open>
  The loop over the columns of one row: \<open>xrow\<close> is the row \<open>X[row]\<close> the item is read
  from and \<open>xrow'\<close> the row \<open>_X[row]\<close> it is written to. An item that is not a
  number (or is missing) throws, and the writes made so far stay.
\<close>

fun columns_loop ::
  "Binarizer \<Rightarrow> store \<Rightarrow> addr \<Rightarrow> addr \<Rightarrow> nat list \<Rightarrow> (bin_error + unit) \<times> store" where
  "columns_loop this h xrow xrow' [] = (Inr (), h)"
| "columns_loop this h xrow xrow' (column # columns) =
     (case js_nth (cells h xrow) column of
        Some (Number item) \<Rightarrow>
          columns_loop this (write_cell h xrow' column (binarize (threshold_bin this) item))
            xrow xrow' columns
      | _ \<Rightarrow> (Inl NotANumber, h))"

text \<open>The loop over the rows; \<open>X'\<close> stands for the source's \<open>_X\<close>.\<close>

fun rows_loop ::
  "Binarizer \<Rightarrow> store \<Rightarrow> addr \<Rightarrow> addr \<Rightarrow> nat list \<Rightarrow> (bin_error + unit) \<times> store" where
  "rows_loop this h X X' [] = (Inr (), h)"
| "rows_loop this h X X' (row # rows) =
     (let rowValue = elements h X ! row in
      case columns_loop this h rowValue (elements h X' ! row)
             [0..<length (cells h rowValue)] of
        (Inl e, h') \<Rightarrow> (Inl e, h')
      | (Inr u, h') \<Rightarrow> rows_loop this h' X X' rows)"

text \<open>\<open>transform\<close>: the matrix returned or the error thrown, and the store after the call.\<close>

definition transform :: "Binarizer \<Rightarrow> store \<Rightarrow> addr \<Rightarrow> (bin_error + addr) \<times> store" where
  "transform this h X =
     (let (h1, X') = (if copy this then clone h X else (h, X)) in
      if elements h1 X = [] then (Inl XCannotBeNull, h1)
      else case rows_loop this h1 X X' [0..<length (elements h1 X)] of
             (Inl e, h') \<Rightarrow> (Inl e, h')
           | (Inr u, h') \<Rightarrow> (Inr X', h'))"

text \<open>
  A store holding one matrix literal: its outer array at address \<open>0\<close>, its rows, each
  an array of its own, at the addresses \<open>1, ..., n\<close>.
\<close>

definition store_of :: "real list list \<Rightarrow> store" where
  "store_of M =
     \<lparr>arrays = [0 \<mapsto> [1..<Suc (length M)]],
      row_arrays = (\<lambda>r. if 1 \<le> r \<and> r \<le> length M
                          then Some (map Number (M ! (r - 1))) else None),
      next_addr = Suc (length M)\<rparr>"

section \<open>Rounding to 32-bit floats at given numbers\<close>

lemma floor_log2:
  assumes "2 powi k \<le> a" and "a < 2 powi (k + 1)"
  shows "\<lfloor>log 2 a\<rfloor> = k"
proof -
  have pos: "0 < a" using assms(1) by (smt (verit) zero_less_power_int)
  have p: "\<And>n. (2::real) powr real_of_int n = 2 powi n"
    by (rule powr_real_of_int') simp_all
  have "of_int k \<le> log 2 a" using assms(1) pos by (simp add: le_log_iff p)
  moreover have "log 2 a < of_int k + 1"
    using assms(2) pos p [of "k + 1"] by (simp add: log_less_iff)
  ultimately show ?thesis by (rule floor_unique)
qed

lemma fround_normal:
  assumes "2 powi k \<le> \<bar>x\<bar>" and "\<bar>x\<bar> < 2 powi (k + 1)" and "- 126 \<le> k"
  shows "fround x = of_int (rne (x / 2 powi (k - 23))) * 2 powi (k - 23)"
proof -
  have "x \<noteq> 0" using assms(1) by (smt (verit) zero_less_power_int abs_zero)
  with floor_log2 [OF assms(1,2)] assms(3) show ?thesis
    by (simp add: fround_def Let_def max_def)
qed

lemma fround_eval:
  assumes "2 powi k \<le> \<bar>x\<bar>" and "\<bar>x\<bar> < 2 powi (k + 1)" and "- 126 \<le> k"
    and "of_int f \<le> x / 2 powi (k - 23)" and "x / 2 powi (k - 23) < of_int f + 1"
  shows "fround x
           = of_int (if x / 2 powi (k - 23) - of_int f < 1 / 2 then f
                     else if 1 / 2 < x / 2 powi (k - 23) - of_int f then f + 1
                     else if even f then f else f + 1) * 2 powi (k - 23)"
proof -
  have "\<lfloor>x / 2 powi (k - 23)\<rfloor> = f" using assms(4,5) by (rule floor_unique)
  then show ?thesis
    by (simp add: fround_normal [OF assms(1,2,3)] rne_def Let_def)
qed

lemmas powi_eval = power_int_def power_one_over

lemma fround_2: "fround 2 = 2"
  using fround_eval [of 1 2 8388608] by (simp add: powi_eval)

lemma fround_half: "fround (1 / 2) = 1 / 2"
  using fround_eval [of "- 1" "1 / 2" 8388608] by (simp add: powi_eval)

lemma fround_third: "fround (1 / 3) = 11184811 / 33554432"
  using fround_eval [of "- 2" "1 / 3" 11184810] by (simp add: powi_eval)

lemma fround_quarter: "fround (1 / 4) = 1 / 4"
  using fround_eval [of "- 2" "1 / 4" 8388608] by (simp add: powi_eval)

lemma fround_fifth: "fround (1 / 5) = 13421773 / 67108864"
  using fround_eval [of "- 3" "1 / 5" 13421772] by (simp add: powi_eval)

lemma f32_0: "f32 0 = Num 0"
  by (simp add: f32_def fround_def)

lemma f32_2: "f32 2 = Num 2"
  by (simp add: f32_def fround_2)

section \<open>What the rounds leave unchanged\<close>

lemma fit_round_weights: "fit_round tensorX y nFeatures w i = Inr (clf, w') \<Longrightarrow> w' = w"
  by (auto simp: fit_round_def split: sum.splits prod.splits)

lemma fit_rounds_weights: "fit_rounds tensorX y nFeatures w is = Inr w' \<Longrightarrow> w' = w"
proof (induction "is" arbitrary: w)
  case Nil
  then show ?case by simp
next
  case (Cons i "is")
  then show ?case
    by (auto split: sum.splits prod.splits dest: fit_round_weights)
qed

lemma weights_after_initial: "weights_after X y r = Inr w \<Longrightarrow> w = initial_weights X"
  by (auto simp: weights_after_def split: sum.splits dest: fit_rounds_weights)

lemma fit_instance: "snd (fit this X y) = this"
  by (simp add: fit_def split: sum.splits)

section \<open>Alpha at a recorded error\<close>


section \<open>The weight update of the spec\<close>

lemma spec_nextWeights_nth:
  "i < length weights \<Longrightarrow>
   spec_nextWeights a weights y pred ! i
     = weights ! i * exp (- a * (y ! i) * (pred ! i))
       / sum_list (map (\<lambda>i. weights ! i * exp (- a * (y ! i) * (pred ! i))) [0..<length weights])"
  by (simp add: spec_nextWeights_def Let_def del: upt_Suc)

lemma spec_nextWeights_differs:
  assumes "a \<noteq> 0" and "2 \<le> length weights" and "weights ! 0 = weights ! 1"
    and "0 < weights ! 0" and "y ! 0 * pred ! 0 = - (y ! 1 * pred ! 1)"
    and "y ! 0 * pred ! 0 \<noteq> 0"
  shows "spec_nextWeights a weights y pred \<noteq> weights"
proof
  define S where
    "S = sum_list (map (\<lambda>i. weights ! i * exp (- a * (y ! i) * (pred ! i))) [0..<length weights])"
  assume eq: "spec_nextWeights a weights y pred = weights"
  have i0: "0 < length weights" and i1: "1 < length weights" using assms(2) by linarith+
  have e0: "weights ! 0 * exp (- a * (y ! 0) * (pred ! 0)) / S = weights ! 0"
    using spec_nextWeights_nth [OF i0, of a y pred] eq by (simp add: S_def)
  have e1: "weights ! 0 * exp (- a * (y ! 1) * (pred ! 1)) / S = weights ! 0"
    using spec_nextWeights_nth [OF i1, of a y pred] eq assms(3) by (simp add: S_def)
  from e0 assms(4) have s: "S \<noteq> 0" by auto
  from e0 s assms(4) have "exp (- a * (y ! 0) * (pred ! 0)) = S" by (simp add: field_simps)
  moreover from e1 s assms(4) have "exp (- a * (y ! 1) * (pred ! 1)) = S"
    by (simp add: field_simps)
  ultimately have "exp (- a * (y ! 0) * (pred ! 0)) = exp (- a * (y ! 1) * (pred ! 1))" by simp
  then have "- a * (y ! 0) * (pred ! 0) = - a * (y ! 1) * (pred ! 1)" by simp
  then have "a * (y ! 0 * pred ! 0) = a * (y ! 1 * pred ! 1)" by (simp add: mult_ac)
  with assms(1) have "y ! 0 * pred ! 0 = y ! 1 * pred ! 1" by simp
  with assms(5,6) show False by simp
qed

lemma alpha_example_nonzero: "ln (7500000000 / 2500000001 :: real) / 2 \<noteq> 0"
proof -
  have "(1 :: real) < 7500000000 / 2500000001" by simp
  then have "0 < ln (7500000000 / 2500000001 :: real)" by (rule ln_gt_zero)
  then show ?thesis by simp
qed

section \<open>Writes of \<open>transform\<close> through shared rows\<close>

lemma binarized_prefix_update:
  assumes "k < length cs"
  shows "(map f (take k cs) @ map g (drop k cs))[k := f (cs ! k)]
           = map f (take (Suc k) cs) @ map g (drop (Suc k) cs)"
proof -
  have "drop k cs = cs ! k # drop (Suc k) cs"
    using assms by (simp add: Cons_nth_drop_Suc)
  then show ?thesis
    using assms by (simp add: take_Suc_conv_app_nth list_update_append)
qed

lemma columns_loop_numeric:
  assumes "row_arrays h r = Some (map (binarize (threshold_bin this)) (take k cs)
                                  @ map Number (drop k cs))"
    and "k \<le> length cs"
  shows "columns_loop this h r r [k..<length cs]
           = (Inr (), h\<lparr>row_arrays := (row_arrays h)(r \<mapsto> map (binarize (threshold_bin this)) cs)\<rparr>)"
  using assms
proof (induction "length cs - k" arbitrary: k h)
  case 0
  then have "k = length cs" by simp
  with "0.prems"(1) have "row_arrays h r = Some (map (binarize (threshold_bin this)) cs)" by simp
  then have "(row_arrays h)(r \<mapsto> map (binarize (threshold_bin this)) cs) = row_arrays h"
    by (simp add: fun_upd_idem)
  with \<open>k = length cs\<close> show ?case by simp
next
  case (Suc n)
  then have k: "k < length cs" by simp
  let ?b = "binarize (threshold_bin this)"
  let ?h1 = "write_cell h r k (?b (cs ! k))"
  have c: "cells h r = map ?b (take k cs) @ map Number (drop k cs)"
    using Suc.prems(1) by (simp add: cells_def)
  have item: "js_nth (cells h r) k = Some (Number (cs ! k))"
    using k by (simp add: c js_nth_def nth_append)
  have r1: "row_arrays ?h1 r = Some (map ?b (take (Suc k) cs) @ map Number (drop (Suc k) cs))"
    by (simp add: write_cell_def c binarized_prefix_update [OF k])
  have "n = length cs - Suc k" using Suc.hyps(2) by simp
  from Suc.hyps(1) [OF this r1] k
  have "columns_loop this ?h1 r r [Suc k..<length cs]
          = (Inr (), ?h1\<lparr>row_arrays := (row_arrays ?h1)(r \<mapsto> map ?b cs)\<rparr>)" by simp
  moreover have "?h1\<lparr>row_arrays := (row_arrays ?h1)(r \<mapsto> map ?b cs)\<rparr>
                   = h\<lparr>row_arrays := (row_arrays h)(r \<mapsto> map ?b cs)\<rparr>"
    by (simp add: write_cell_def)
  moreover have "[k..<length cs] = k # [Suc k..<length cs]"
    using k by (simp add: upt_conv_Cons)
  ultimately show ?case by (simp add: item)
qed

lemma rows_loop_numeric:
  assumes "elements h X = rs" and "elements h X' = rs" and "distinct rs" and "k \<le> length rs"
    and "\<forall>i. k \<le> i \<and> i < length rs \<longrightarrow> row_arrays h (rs ! i) = Some (map Number (M ! i))"
  shows "\<exists>h'. rows_loop this h X X' [k..<length rs] = (Inr (), h')
           \<and> arrays h' = arrays h
           \<and> (\<forall>i. k \<le> i \<and> i < length rs \<longrightarrow>
                  row_arrays h' (rs ! i) = Some (map (binarize (threshold_bin this)) (M ! i)))
           \<and> (\<forall>i. i < k \<longrightarrow> row_arrays h' (rs ! i) = row_arrays h (rs ! i))"
  using assms
proof (induction "length rs - k" arbitrary: k h)
  case 0
  then have "k = length rs" by simp
  then show ?case by auto
next
  case (Suc n)
  then have k: "k < length rs" by simp
  let ?b = "binarize (threshold_bin this)"
  let ?r = "rs ! k"
  let ?h1 = "h\<lparr>row_arrays := (row_arrays h)(?r \<mapsto> map ?b (M ! k))\<rparr>"
  have rk: "row_arrays h ?r = Some (map Number (M ! k))" using Suc.prems(5) k by simp
  then have len: "length (cells h ?r) = length (M ! k)" by (simp add: cells_def)
  have "row_arrays h ?r = Some (map ?b (take 0 (M ! k)) @ map Number (drop 0 (M ! k)))"
    using rk by simp
  from columns_loop_numeric [OF this]
  have col: "columns_loop this h ?r ?r [0..<length (M ! k)] = (Inr (), ?h1)" by simp
  have e1: "elements ?h1 X = rs" "elements ?h1 X' = rs"
    using Suc.prems(1,2) by (simp_all add: elements_def)
  have other: "\<And>i. i < length rs \<Longrightarrow> i \<noteq> k \<Longrightarrow> rs ! i \<noteq> ?r"
    using Suc.prems(3) k by (simp add: nth_eq_iff_index_eq)
  have rest: "\<forall>i. Suc k \<le> i \<and> i < length rs \<longrightarrow> row_arrays ?h1 (rs ! i) = Some (map Number (M ! i))"
    using Suc.prems(5) other by auto
  have n: "n = length rs - Suc k" using Suc.hyps(2) by simp
  have sk: "Suc k \<le> length rs" using k by simp
  from Suc.hyps(1) [OF n e1 Suc.prems(3) sk rest]
  obtain h' where h': "rows_loop this ?h1 X X' [Suc k..<length rs] = (Inr (), h')"
    "arrays h' = arrays ?h1"
    "\<forall>i. Suc k \<le> i \<and> i < length rs \<longrightarrow> row_arrays h' (rs ! i) = Some (map ?b (M ! i))"
    "\<forall>i. i < Suc k \<longrightarrow> row_arrays h' (rs ! i) = row_arrays ?h1 (rs ! i)"
    by blast
  have step: "rows_loop this h X X' [k..<length rs] = (Inr (), h')"
    using k h'(1) col len Suc.prems(1,2) by (simp add: upt_conv_Cons)
  have a: "\<forall>i. k \<le> i \<and> i < length rs \<longrightarrow> row_arrays h' (rs ! i) = Some (map ?b (M ! i))"
  proof (intro allI impI)
    fix i assume i: "k \<le> i \<and> i < length rs"
    show "row_arrays h' (rs ! i) = Some (map ?b (M ! i))"
    proof (cases "i = k")
      case True
      then show ?thesis using h'(4) by simp
    next
      case False
      then show ?thesis using h'(3) i by simp
    qed
  qed
  have b: "\<forall>i. i < k \<longrightarrow> row_arrays h' (rs ! i) = row_arrays h (rs ! i)"
    using h'(4) other k by auto
  from step h'(2) a b show ?case by simp
qed

section \<open>The claims\<close>

text \<open>The definitions a run on a concrete input unfolds.\<close>

lemmas run_defs = fit_def weights_after_def tensor2d_def inferShape_def initial_weights_def
  fit_round_def slice_data_def uniq_def try_threshold_def prediction_of_def reshape_def
  misclassified_def js_nth_def reduce_sum_def new_DecisionStump_def alpha_of_def upt_rec
  numeral_eq_Suc new_AdaboostClassifier_def f32_0 f32_2 fround_half fround_third
  fround_quarter fround_fifth

subsection \<open>C1: the value of \<open>predict\<close>\<close>

text \<open>
  C1, as amended. The claim has \<open>predict\<close> return the sign of the weighted vote of the
  members, always \<open>+1\<close> or \<open>-1\<close>. The code computes no score: for every instance and
  every input \<open>predict\<close> returns \<open>undefined\<close>.
\<close>

theorem predict_returns_undefined: "predict this X = None"
  by (simp add: predict_def)

text \<open>
  C1 as stated fails: after a \<open>fit\<close> that returned normally, \<open>predict\<close> on the training
  matrix is \<open>undefined\<close>, not a vector of labels.
\<close>

theorem predict_label_counterexample:
  "fst (fit (new_AdaboostClassifier 1) [[2, 2], [2, 2]] [1, - 1]) = Inr ()
   \<and> predict (snd (fit (new_AdaboostClassifier 1) [[2, 2], [2, 2]] [1, - 1]))
         (Matrix2D [[2, 2], [2, 2]]) = None"
  by (simp add: predict_def run_defs)

subsection \<open>C2: the recorded feature index\<close>

text \<open>
  C2, evaluated on the code. \<open>X\<close> has the four samples \<open>[2,2], [2,2], [0,0], [0,0]\<close>
  (two features), \<open>y = [1,-1,-1,-1]\<close>, the weights are uniform. In the round with
  index \<open>2\<close> the search records \<open>featureIndex = 2\<close>, the index of the round: no
  feature has that index, and the one candidate threshold came from the iteration
  \<open>j = 1\<close>, which reads the first row of \<open>X\<close> and not a column.
\<close>

theorem featureIndex_is_round_index:
  "tensor2d [[2, 2], [2, 2], [0, 0], [0, 0]]
     = Inr \<lparr>t_shape = (4, 2),
            t_data = [Num 2, Num 2, Num 2, Num 2, Num 0, Num 0, Num 0, Num 0]\<rparr>
   \<and> initial_weights [[2, 2], [2, 2], [0, 0], [0, 0]] = [1 / 4, 1 / 4, 1 / 4, 1 / 4]
   \<and> fit_round \<lparr>t_shape = (4, 2),
                 t_data = [Num 2, Num 2, Num 2, Num 2, Num 0, Num 0, Num 0, Num 0]\<rparr>
       [1, - 1, - 1, - 1] 2
       [1 / 4, 1 / 4, 1 / 4, 1 / 4] 2
     = Inr (\<lparr>polarity = 1, featureIndex = Some 2, threshold = Some (Num 2),
              alpha = Some (Num (ln (7500000000 / 2500000001) / 2))\<rparr>,
            [1 / 4, 1 / 4, 1 / 4, 1 / 4])"
  by (simp add: run_defs)

subsection \<open>C3: the prediction of a candidate threshold\<close>

text \<open>
  C3, evaluated on the code. For \<open>X = [[2,2],[0,0]]\<close>, \<open>y = [1,-1]\<close>, uniform weights
  and the candidate threshold \<open>2\<close>, the rule of the claim predicts \<open>+1\<close> for the first
  sample (\<open>2 \<ge> 2\<close>) and \<open>-1\<close> for the second, with weighted error \<open>0\<close>. The code
  compares the constant \<open>1\<close> with the threshold instead of the sample's feature
  value: both samples are predicted \<open>-1\<close> and the recorded error is \<open>1/2\<close>.
\<close>

theorem prediction_ignores_features:
  "tensor2d [[2, 2], [0, 0]]
     = Inr \<lparr>t_shape = (2, 2), t_data = [Num 2, Num 2, Num 0, Num 0]\<rparr>
   \<and> slice_data \<lparr>t_shape = (2, 2), t_data = [Num 2, Num 2, Num 0, Num 0]\<rparr> 1
     = Inr [Num 2, Num 2]
   \<and> prediction_of (length [1, - 1 :: real]) (Num 2) = [- 1, - 1]
   \<and> try_threshold [1 / 2, 1 / 2] [1, - 1] 0 (new_DecisionStump, PosInf) (Num 2)
       = Inr (\<lparr>polarity = 1, featureIndex = Some 0, threshold = Some (Num 2), alpha = None\<rparr>,
              Num (1 / 2))"
  by (simp add: run_defs)

subsection \<open>C4: the weights after a round\<close>

text \<open>
  C4, evaluated on the code. \<open>X\<close> has the four samples \<open>[2,2], [2,2], [0,0], [0,0]\<close>,
  \<open>y = [1,-1,-1,-1]\<close>. The first round chooses a stump with a non-zero \<open>alpha\<close>, and
  the weights after it are the weights before it: the update of the claim would give
  the first two samples different weights, whether \<open>pred\<close> is the array of ones the
  round builds last or the prediction of the chosen threshold. And the initial
  weights are the 32-bit floats nearest to \<open>1/n\<close>: for three samples they sum to
  \<open>1 + 2^-25\<close>.
\<close>

theorem weights_not_updated:
  "weights_after [[2, 2], [2, 2], [0, 0], [0, 0]] [1, - 1, - 1, - 1] 1
     = Inr [1 / 4, 1 / 4, 1 / 4, 1 / 4]
   \<and> fit_round \<lparr>t_shape = (4, 2),
                 t_data = [Num 2, Num 2, Num 2, Num 2, Num 0, Num 0, Num 0, Num 0]\<rparr>
       [1, - 1, - 1, - 1] 2 [1 / 4, 1 / 4, 1 / 4, 1 / 4] 0
     = Inr (\<lparr>polarity = 1, featureIndex = Some 0, threshold = Some (Num 2),
              alpha = Some (Num (ln (7500000000 / 2500000001) / 2))\<rparr>,
            [1 / 4, 1 / 4, 1 / 4, 1 / 4])
   \<and> [1 / 4, 1 / 4, 1 / 4, 1 / 4]
       \<noteq> spec_nextWeights (ln (7500000000 / 2500000001) / 2) [1 / 4, 1 / 4, 1 / 4, 1 / 4]
            [1, - 1, - 1, - 1] [1, 1, 1, 1]
   \<and> [1 / 4, 1 / 4, 1 / 4, 1 / 4]
       \<noteq> spec_nextWeights (ln (7500000000 / 2500000001) / 2) [1 / 4, 1 / 4, 1 / 4, 1 / 4]
            [1, - 1, - 1, - 1] [- 1, - 1, - 1, - 1]
   \<and> initial_weights [[2, 2], [2, 2], [2, 2]]
       = [11184811 / 33554432, 11184811 / 33554432, 11184811 / 33554432]
   \<and> sum_list (initial_weights [[2, 2], [2, 2], [2, 2]]) = 1 + 1 / 2 ^ 25"
proof -
  have r: "fit_round \<lparr>t_shape = (4, 2),
                 t_data = [Num 2, Num 2, Num 2, Num 2, Num 0, Num 0, Num 0, Num 0]\<rparr>
       [1, - 1, - 1, - 1] 2 [1 / 4, 1 / 4, 1 / 4, 1 / 4] 0
     = Inr (\<lparr>polarity = 1, featureIndex = Some 0, threshold = Some (Num 2),
              alpha = Some (Num (ln (7500000000 / 2500000001) / 2))\<rparr>,
            [1 / 4, 1 / 4, 1 / 4, 1 / 4])"
    by (simp add: run_defs)
  have a: "spec_nextWeights (ln (7500000000 / 2500000001) / 2) [1 / 4, 1 / 4, 1 / 4, 1 / 4]
            [1, - 1, - 1, - 1] [1, 1, 1, 1] \<noteq> [1 / 4, 1 / 4, 1 / 4, 1 / 4]"
    by (rule spec_nextWeights_differs [OF alpha_example_nonzero]) simp_all
  have b: "spec_nextWeights (ln (7500000000 / 2500000001) / 2) [1 / 4, 1 / 4, 1 / 4, 1 / 4]
            [1, - 1, - 1, - 1] [- 1, - 1, - 1, - 1] \<noteq> [1 / 4, 1 / 4, 1 / 4, 1 / 4]"
    by (rule spec_nextWeights_differs [OF alpha_example_nonzero]) simp_all
  have w: "weights_after [[2, 2], [2, 2], [0, 0], [0, 0]] [1, - 1, - 1, - 1] 1
     = Inr [1 / 4, 1 / 4, 1 / 4, 1 / 4]"
    by (simp add: run_defs)
  have i: "initial_weights [[2, 2], [2, 2], [2, 2]]
       = [11184811 / 33554432, 11184811 / 33554432, 11184811 / 33554432]"
    by (simp add: run_defs)
  have s: "sum_list (initial_weights [[2, 2], [2, 2], [2, 2]]) = 1 + 1 / 2 ^ 25"
    by (simp add: i)
  from w r i s show ?thesis by (simp only: not_sym [OF a] not_sym [OF b] simp_thms)
qed

subsection \<open>C5: the polarity flip\<close>

text \<open>
  C5. When the weighted error \<open>e\<close> of a candidate threshold exceeds \<open>0.5\<close>, the search
  goes on with polarity \<open>-1\<close> and the error \<open>1 - e\<close>: the candidate is recorded with
  these when \<open>1 - e\<close> is below the minimum so far (always, for the first candidate of
  a round), and \<open>e\<close> itself is never recorded.
\<close>

theorem polarity_flip:
  assumes "reduce_sum (misclassified w y (prediction_of (length y) t)) = Inr e"
    and "1 / 2 < e"
  shows "try_threshold w y i (clf, minError) t
           = (if js_less (1 - e) minError
              then Inr (clf\<lparr>polarity := - 1, featureIndex := Some i, threshold := Some t\<rparr>,
                        Num (1 - e))
              else Inr (clf, minError))
         \<and> try_threshold w y i (clf, PosInf) t
           = Inr (clf\<lparr>polarity := - 1, featureIndex := Some i, threshold := Some t\<rparr>,
                  Num (1 - e))"
  using assms by (simp add: try_threshold_def)

text \<open>Ten uniform weights, nine samples misclassified: error \<open>0.9\<close>, recorded as \<open>0.1\<close>.\<close>

theorem polarity_flip_witness:
  "reduce_sum (misclassified (replicate 10 (1 / 10)) [1, 1, 1, 1, 1, 1, 1, 1, 1, - 1]
       (prediction_of (length [1, 1, 1, 1, 1, 1, 1, 1, 1, - 1 :: real]) (Num 2))) = Inr (9 / 10)
   \<and> (1 :: real) / 2 < 9 / 10
   \<and> try_threshold (replicate 10 (1 / 10)) [1, 1, 1, 1, 1, 1, 1, 1, 1, - 1] 0
        (new_DecisionStump, PosInf) (Num 2)
      = Inr (\<lparr>polarity = - 1, featureIndex = Some 0, threshold = Some (Num 2), alpha = None\<rparr>,
             Num (1 / 10))"
proof -
  have h: "reduce_sum (misclassified (replicate 10 (1 / 10)) [1, 1, 1, 1, 1, 1, 1, 1, 1, - 1]
       (prediction_of (length [1, 1, 1, 1, 1, 1, 1, 1, 1, - 1 :: real]) (Num 2))) = Inr (9 / 10)"
    by (simp add: run_defs)
  have g: "(1 :: real) / 2 < 9 / 10" by simp
  from polarity_flip [OF h g, of 0 new_DecisionStump PosInf] h g show ?thesis
    by (simp add: new_DecisionStump_def)
qed

subsection \<open>C6: alpha\<close>




subsection \<open>C7: the members after \<open>fit\<close>\<close>

text \<open>
  C7, as amended. The claim has \<open>fit\<close> append one member per round. The code appends
  nothing: after \<open>fit\<close> on a new instance, whatever the round count \<open>R\<close>, the stored
  ensemble is empty.
\<close>

theorem fit_appends_nothing: "cls (snd (fit (new_AdaboostClassifier R) X y)) = []"
  by (simp add: fit_instance new_AdaboostClassifier_def)

text \<open>C7 as stated fails: one round, \<open>fit\<close> returns normally, and no member is stored.\<close>

theorem fit_members_counterexample:
  "fst (fit (new_AdaboostClassifier 1) [[2, 2], [2, 2], [0, 0], [0, 0]] [1, - 1, - 1, - 1]) = Inr ()
   \<and> nCls (snd (fit (new_AdaboostClassifier 1) [[2, 2], [2, 2], [0, 0], [0, 0]]
                          [1, - 1, - 1, - 1])) = 1
   \<and> cls (snd (fit (new_AdaboostClassifier 1) [[2, 2], [2, 2], [0, 0], [0, 0]]
                          [1, - 1, - 1, - 1])) = []"
  by (simp add: run_defs)

subsection \<open>C8: the round trip through \<open>toJSON\<close> and \<open>fromJSON\<close>\<close>

text \<open>
  C8, as amended. The claim has \<open>toJSON\<close> give a serialised form from which \<open>fromJSON\<close>
  rebuilds an ensemble that predicts as the original. The code has neither: for every
  ensemble \<open>e\<close> \<open>toJSON\<close> returns \<open>undefined\<close>, \<open>fromJSON\<close> leaves the receiving instance
  \<open>that\<close> as it was whatever state it is given, and \<open>predict\<close>, on the receiving
  instance after the round trip as on \<open>e\<close>, returns \<open>undefined\<close>.
\<close>

theorem codec_does_nothing:
  "toJSON e = None \<and> fromJSON that state = that
   \<and> predict (fromJSON that (toJSON e)) X = None \<and> predict e X = None"
  by (simp add: toJSON_def fromJSON_def predict_def)

text \<open>
  C8 as stated fails: \<open>e\<close> is an instance of one round after a \<open>fit\<close> that returned
  normally, the receiving instance is a new one of the default ten rounds. There is
  no serialised form, the instance after \<open>fromJSON\<close> is the new one still, with a
  round count other than that of \<open>e\<close>, and its \<open>predict\<close> gives no vector of labels.
\<close>

theorem roundtrip_counterexample:
  "fst (fit (new_AdaboostClassifier 1) [[2, 2], [0, 0]] [1, - 1]) = Inr ()
   \<and> toJSON (snd (fit (new_AdaboostClassifier 1) [[2, 2], [0, 0]] [1, - 1])) = None
   \<and> fromJSON (new_AdaboostClassifier 10)
        (toJSON (snd (fit (new_AdaboostClassifier 1) [[2, 2], [0, 0]] [1, - 1])))
       = new_AdaboostClassifier 10
   \<and> nCls (fromJSON (new_AdaboostClassifier 10)
        (toJSON (snd (fit (new_AdaboostClassifier 1) [[2, 2], [0, 0]] [1, - 1]))))
       \<noteq> nCls (snd (fit (new_AdaboostClassifier 1) [[2, 2], [0, 0]] [1, - 1]))
   \<and> predict (fromJSON (new_AdaboostClassifier 10)
        (toJSON (snd (fit (new_AdaboostClassifier 1) [[2, 2], [0, 0]] [1, - 1]))))
        (Matrix2D [[2, 2], [0, 0]]) = None"
  by (simp add: toJSON_def fromJSON_def predict_def run_defs)

subsection \<open>C9: \<open>fit\<close> on mismatched shapes\<close>

text \<open>
  C9, as amended. \<open>fit\<close> has no check of the shapes and no error of its own: on any
  \<open>X\<close> and \<open>y\<close> it returns normally or stops on an exception of \<open>reduce\<close> or of the
  tensor library, and either way the instance is left as it was.
\<close>

theorem fit_no_state_mutation:
  "snd (fit this X y) = this
   \<and> (fst (fit this X y) = Inr () \<or> fst (fit this X y) = Inl TypeError
        \<or> fst (fit this X y) = Inl TfError)"
proof -
  have "fst (fit this X y) = Inr () \<or> fst (fit this X y) = Inl TypeError
        \<or> fst (fit this X y) = Inl TfError"
  proof (cases "fst (fit this X y)")
    case (Inl e)
    then show ?thesis by (cases e) simp_all
  next
    case (Inr u)
    then show ?thesis by simp
  qed
  then show ?thesis by (simp add: fit_instance)
qed

text \<open>C9 as stated fails: with five rows in \<open>X\<close> and four labels \<open>fit\<close> returns normally.\<close>

theorem fit_shape_mismatch_counterexample:
  "fst (fit (new_AdaboostClassifier 1) [[2, 2], [2, 2], [2, 2], [2, 2], [2, 2]] [1, 1, 1, 1])
     = Inr ()"
  by (simp add: run_defs)

subsection \<open>C10: \<open>transform\<close> with \<open>copy = true\<close>\<close>

text \<open>
  C10. \<open>X\<close> is a non-empty outer array whose rows are distinct arrays holding the
  numeric matrix \<open>M\<close>, and \<open>copy\<close> is true. Then \<open>transform\<close> returns a new outer array
  that shares the rows of \<open>X\<close>, and after the call the matrix read through the
  caller's \<open>X\<close> is the binarised \<open>M\<close>, the same as the matrix returned.
\<close>

theorem transform_copy_writes_input:
  assumes "copy this" and "arrays h X = Some rs" and "rs \<noteq> []" and "distinct rs"
    and "arrays h (next_addr h) = None"
    and "list_all (\<lambda>r. row_arrays h r \<noteq> None) rs"
    and "matrix_at h X = map (map Number) M"
  shows "\<exists>h'. transform this h X = (Inr (next_addr h), h')
           \<and> next_addr h \<noteq> X
           \<and> elements h' (next_addr h) = elements h' X
           \<and> matrix_at h' X = map (map (binarize (threshold_bin this))) M
           \<and> matrix_at h' (next_addr h) = map (map (binarize (threshold_bin this))) M"
proof -
  let ?b = "binarize (threshold_bin this)"
  let ?X' = "next_addr h"
  let ?h1 = "h\<lparr>arrays := (arrays h)(?X' \<mapsto> rs), next_addr := Suc ?X'\<rparr>"
  have ne: "?X' \<noteq> X" using assms(2,5) by auto
  have el: "elements h X = rs" using assms(2) by (simp add: elements_def)
  have lenM: "length M = length rs"
    using assms(7) el by (simp add: matrix_at_def) (metis length_map)
  have rows: "\<forall>i. 0 \<le> i \<and> i < length rs \<longrightarrow> row_arrays h (rs ! i) = Some (map Number (M ! i))"
  proof (intro allI impI)
    fix i assume i: "0 \<le> i \<and> i < length rs"
    then have "row_arrays h (rs ! i) \<noteq> None"
      using assms(6) by (simp add: list_all_length)
    then obtain vs where vs: "row_arrays h (rs ! i) = Some vs" by auto
    have "map (cells h) rs ! i = map (map Number) M ! i"
      using assms(7) el by (simp add: matrix_at_def)
    then have "cells h (rs ! i) = map Number (M ! i)" using i lenM by simp
    with vs show "row_arrays h (rs ! i) = Some (map Number (M ! i))" by (simp add: cells_def)
  qed
  have cl: "clone h X = (?h1, ?X')" by (simp add: clone_def el)
  have e1: "elements ?h1 X = rs" "elements ?h1 ?X' = rs"
    using assms(2) ne by (simp_all add: elements_def)
  have rows1: "\<forall>i. 0 \<le> i \<and> i < length rs \<longrightarrow> row_arrays ?h1 (rs ! i) = Some (map Number (M ! i))"
    using rows by simp
  from rows_loop_numeric [OF e1 assms(4) _ rows1, of this]
  obtain h' where h': "rows_loop this ?h1 X ?X' [0..<length rs] = (Inr (), h')"
    "arrays h' = arrays ?h1"
    "\<forall>i. 0 \<le> i \<and> i < length rs \<longrightarrow> row_arrays h' (rs ! i) = Some (map ?b (M ! i))"
    by auto
  have t: "transform this h X = (Inr ?X', h')"
    using assms(1,3) cl e1 h'(1) by (simp add: transform_def)
  have e': "elements h' X = rs" "elements h' ?X' = rs"
    using h'(2) e1 by (simp_all add: elements_def)
  have "map (cells h') rs = map (map ?b) M"
    using h'(3) lenM by (auto simp: list_eq_iff_nth_eq cells_def)
  then have m: "matrix_at h' X = map (map ?b) M" "matrix_at h' ?X' = map (map ?b) M"
    using e' by (simp_all add: matrix_at_def)
  from t ne e' m show ?thesis by simp
qed

text \<open>The matrix of the source's comment, at threshold \<open>0\<close>.\<close>

theorem transform_copy_writes_input_witness:
  "copy \<lparr>threshold_bin = 0, copy = True\<rparr>
   \<and> arrays (store_of [[1, - 1, 2], [2, 0, 0], [0, 1, - 1]]) 0 = Some [1, 2, 3]
   \<and> distinct [1, 2, 3 :: nat]
   \<and> matrix_at (store_of [[1, - 1, 2], [2, 0, 0], [0, 1, - 1]]) 0
       = map (map Number) [[1, - 1, 2], [2, 0, 0], [0, 1, - 1]]
   \<and> (\<exists>h'. transform \<lparr>threshold_bin = 0, copy = True\<rparr>
              (store_of [[1, - 1, 2], [2, 0, 0], [0, 1, - 1]]) 0 = (Inr 4, h')
          \<and> matrix_at h' 0 = map (map Number) [[1, 0, 1], [1, 0, 0], [0, 1, 0]]
          \<and> matrix_at h' 4 = map (map Number) [[1, 0, 1], [1, 0, 0], [0, 1, 0]])"
proof -
  let ?h = "store_of [[1, - 1, 2], [2, 0, 0], [0, 1, - 1]]"
  have a: "copy \<lparr>threshold_bin = 0, copy = True\<rparr>" by simp
  have b: "arrays ?h 0 = Some [1, 2, 3]" by (simp add: store_of_def upt_rec numeral_eq_Suc)
  have c: "[1, 2, 3 :: nat] \<noteq> []" by simp
  have d: "distinct [1, 2, 3 :: nat]" by simp
  have e: "arrays ?h (next_addr ?h) = None" by (simp add: store_of_def)
  have f: "list_all (\<lambda>r. row_arrays ?h r \<noteq> None) [1, 2, 3]" by (simp add: store_of_def)
  have g: "matrix_at ?h 0 = map (map Number) [[1, - 1, 2], [2, 0, 0], [0, 1, - 1]]"
    by (simp add: matrix_at_def elements_def cells_def store_of_def upt_rec numeral_eq_Suc)
  have n: "next_addr ?h = 4" by (simp add: store_of_def)
  from transform_copy_writes_input [OF a b c d e f g] a b d g show ?thesis
    by (auto simp: n binarize_def)
qed

end
